theory Spec2Isabelle
  imports Main
begin

section \<open>JavaScript values\<close>

text \<open>
  The class \<open>EthereumExplorer\<close> tests most of its inputs for truthiness
  (\<open>if (x)\<close>, \<open>a || b\<close>, \<open>a && b\<close>) and one of them with \<open>typeof\<close>, so the
  values it handles are modelled as JavaScript values. Numbers are integers (no claim
  depends on fractions or NaN). \<open>JPromise v\<close> is a promise that resolves to \<open>v\<close>.
\<close>

datatype jsval =
    JUndefined
  | JNull
  | JBool bool
  | JNum int
  | JStr string
  | JArr "jsval list"
  | JObj "(string \<times> jsval) list"
  | JPromise jsval

fun truthy :: "jsval \<Rightarrow> bool" where
  "truthy JUndefined = False"
| "truthy JNull = False"
| "truthy (JBool b) = b"
| "truthy (JNum n) = (n \<noteq> 0)"
| "truthy (JStr s) = (s \<noteq> [])"
| "truthy (JArr xs) = True"
| "truthy (JObj kvs) = True"
| "truthy (JPromise v) = True"

fun typeof :: "jsval \<Rightarrow> string" where
  "typeof JUndefined = ''undefined''"
| "typeof JNull = ''object''"
| "typeof (JBool b) = ''boolean''"
| "typeof (JNum n) = ''number''"
| "typeof (JStr s) = ''string''"
| "typeof (JArr xs) = ''object''"
| "typeof (JObj kvs) = ''object''"
| "typeof (JPromise v) = ''object''"

text \<open>\<open>a && b\<close> and \<open>a || b\<close> return one of their operands.\<close>

definition js_and :: "jsval \<Rightarrow> jsval \<Rightarrow> jsval" where
  "js_and a b = (if truthy a then b else a)"

definition js_or :: "jsval \<Rightarrow> jsval \<Rightarrow> jsval" where
  "js_or a b = (if truthy a then a else b)"

text \<open>
  \<open>await v\<close>, and the value a caller of an \<open>async\<close> function receives when the
  function returns \<open>v\<close>: a promise is replaced by the value it resolves to (which
  is never itself a promise).
\<close>

fun await_val :: "jsval \<Rightarrow> jsval" where
  "await_val (JPromise v) = v"
| "await_val v = v"

text \<open>
  The spread \<open>...param\<close> in an argument list: an array gives its elements; the other
  values whose \<open>typeof\<close> is \<open>'object'\<close> are not iterable and the spread throws a
  TypeError (\<open>None\<close>).
\<close>

fun spread :: "jsval \<Rightarrow> jsval list option" where
  "spread (JArr xs) = Some xs"
| "spread v = None"

text \<open>An options object; \<open>options.k\<close> is \<open>undefined\<close> for a key that is not there.\<close>

type_synonym options = "(string \<times> jsval) list"

definition option_of :: "options \<Rightarrow> string \<Rightarrow> jsval" where
  "option_of opts k = (case map_of opts k of None \<Rightarrow> JUndefined | Some v \<Rightarrow> v)"

section \<open>Data model\<close>

text \<open>One entry of a contract ABI; \<open>None\<close> is a property the entry does not have.\<close>

record abi_item =
  name :: "string option"
  stateMutability :: "string option"

text \<open>
  \<open>this.contractDetails[contractName]\<close>, as \<open>loadContact\<close> fills it. The ABI is
  \<open>None\<close> when the caller passed \<open>undefined\<close> or \<open>null\<close>.
\<close>

record contract_detail =
  address :: string
  abi :: "abi_item list option"
  contractName :: string

text \<open>\<open>new this.web3.eth.Contract(contractAbi, contractAddress)\<close>: an opaque handle.\<close>

datatype contract = Contract "abi_item list option" string

record default_options =
  gasLimit :: jsval
  gasPrice :: jsval

datatype provider = InjectedProvider | LegacyProvider | HttpProvider string

text \<open>
  The fields of the class. The three objects used as dictionaries hold the entries
  stored in them (a map from the name); a callback is a function of the event's data.
\<close>

record session =
  web3 :: "provider option"
  contracts :: "string \<rightharpoonup> contract"
  contractDetails :: "string \<rightharpoonup> contract_detail"
  defaultOptions :: default_options
  userAccount :: jsval
  callbacks :: "string \<rightharpoonup> (jsval \<Rightarrow> jsval)"

text \<open>
  The three dictionaries are plain objects (\<open>{}\<close>), and the class reads them with
  \<open>obj[name]\<close>. Such a read finds the entry stored under the name; failing that, a
  property that every plain object inherits from \<open>Object.prototype\<close>, when the name
  is one of those; failing that, \<open>undefined\<close>. The inherited properties are functions,
  except \<open>__proto__\<close>, which is the object \<open>Object.prototype\<close>: all are truthy, none
  is callable with a result the class knows, and none has a property \<open>address\<close>,
  \<open>abi\<close> or \<open>methods\<close>.

  An assignment \<open>obj['__proto__'] = v\<close> replaces the prototype of the object instead
  of storing a property. It is modelled as a stored entry, which is what a later read of
  that name returns; what the other names inherit from a replaced prototype is not
  modelled.
\<close>

definition object_prototype_names :: "string list" where
  "object_prototype_names =
     [''constructor'', ''hasOwnProperty'', ''isPrototypeOf'', ''propertyIsEnumerable'',
      ''toLocaleString'', ''toString'', ''valueOf'', ''__proto__'',
      ''__defineGetter__'', ''__defineSetter__'', ''__lookupGetter__'', ''__lookupSetter__'']"

datatype 'a found = Missing | Own 'a | Inherited string

definition js_get :: "(string \<rightharpoonup> 'a) \<Rightarrow> string \<Rightarrow> 'a found" where
  "js_get obj k =
     (case obj k of
        Some v \<Rightarrow> Own v
      | None \<Rightarrow> (if k \<in> set object_prototype_names then Inherited k else Missing))"

text \<open>A compiled artifact: \<open>contractJson.networks\<close> and \<open>contractJson.abi\<close>.\<close>

record network =
  network_address :: string

record artifact =
  networks :: "nat \<rightharpoonup> network"
  artifact_abi :: "abi_item list option"

text \<open>The object built by \<open>getTransactionData\<close> and completed by \<open>sendTxToSmartContract\<close>.\<close>

record txdata =
  tx_from :: string
  tx_to :: jsval
  tx_nonce :: jsval
  tx_gasPrice :: jsval
  tx_gasLimit :: jsval
  tx_value :: "jsval option"
  tx_data :: "string option"

datatype block_tag = Latest | BlockNo nat

record block =
  block_gasLimit :: int

text \<open>
  What the client library and the node behind it answer: the values its promises
  resolve to. The class only forwards them.
\<close>

record transport =
  net_id :: nat
  block_at :: "block_tag \<Rightarrow> block option"
  block_number :: nat
  gas_price :: jsval
  transaction_count :: "string \<Rightarrow> nat"
  accounts :: "string list"
  call_reply :: "contract \<Rightarrow> string \<Rightarrow> jsval list \<Rightarrow> options \<Rightarrow> jsval"
  encoded_abi :: "contract \<Rightarrow> string \<Rightarrow> jsval list \<Rightarrow> string"
  raw_transaction :: "txdata \<Rightarrow> jsval \<Rightarrow> string"

text \<open>
  Every request an operation makes to the library, and every function it runs as a
  callback: a registered one, or the function inherited under the event's name.
\<close>

datatype effect =
    RequestAccounts
  | QueryNetworkId
  | QueryBlock block_tag
  | QueryBlockNumber
  | QueryGasPrice
  | QueryTransactionCount string
  | QueryAccounts
  | MethodCall contract string "jsval list" options
  | MethodSend contract string "jsval list" txdata
  | SignTransaction txdata jsval
  | SendSignedTransaction string
  | Invoke "jsval \<Rightarrow> jsval" jsval
  | InvokeInherited string jsval

text \<open>
  What the code throws: the string \<open>'Contract address not found!'\<close>
  (\<open>ContractNotRegistered\<close>), the string \<open>'The network ID does not exist in the JSON
  of the contract. ...  Current network: ' + netId\<close> (\<open>NetworkMismatch netId\<close>), the
  error of a wallet that refuses access (\<open>AccessDenied\<close>), and the TypeError of a
  property read on \<open>null\<close> or \<open>undefined\<close>, or of a spread of a value that is not
  iterable.
\<close>

datatype error = ContractNotRegistered | NetworkMismatch nat | AccessDenied | TypeError

text \<open>
  An operation returns what it returns or throws, the session it leaves and the
  requests it made, in order. A throw keeps the changes made before it.
\<close>

type_synonym 'a outcome = "(error + 'a) \<times> session \<times> effect list"

definition result_of :: "'a outcome \<Rightarrow> error + 'a" where
  "result_of r = fst r"

definition state_of :: "'a outcome \<Rightarrow> session" where
  "state_of r = fst (snd r)"

definition trace_of :: "'a outcome \<Rightarrow> effect list" where
  "trace_of r = snd (snd r)"

text \<open>Sequencing: the second step runs on the session the first one left, unless it threw.\<close>

definition bind :: "'a outcome \<Rightarrow> ('a \<Rightarrow> session \<Rightarrow> 'b outcome) \<Rightarrow> 'b outcome" where
  "bind m k =
     (case m of
        (Inl e, s, t) \<Rightarrow> (Inl e, s, t)
      | (Inr x, s, t) \<Rightarrow> (case k x s of (r, s', t') \<Rightarrow> (r, s', t @ t')))"

text \<open>\<open>v || await k()\<close>: the query \<open>k\<close> runs only when \<open>v\<close> is falsy.\<close>

definition or_else :: "jsval \<Rightarrow> (session \<Rightarrow> jsval outcome) \<Rightarrow> session \<Rightarrow> jsval outcome" where
  "or_else v k s = (if truthy v then (Inr v, s, []) else k s)"

section \<open>The operations\<close>

definition constructor :: session where
  "constructor =
     \<lparr> web3 = None, contracts = Map.empty, contractDetails = Map.empty,
       defaultOptions = \<lparr> gasLimit = JNull, gasPrice = JNull \<rparr>,
       userAccount = JNull, callbacks = Map.empty \<rparr>"

text \<open>
  \<open>bootWeb3\<close>. The window has an injected wallet (which grants or refuses the account
  request), a legacy \<open>window.web3\<close>, or neither.
\<close>

record window =
  ethereum :: "bool option"
  legacy_web3 :: bool

definition bootWeb3 :: "window \<Rightarrow> session \<Rightarrow> unit outcome" where
  "bootWeb3 w s =
     (case ethereum w of
        Some granted \<Rightarrow>
          (if granted then (Inr (), s\<lparr>web3 := Some InjectedProvider\<rparr>, [RequestAccounts])
           else (Inl AccessDenied, s, [RequestAccounts]))
      | None \<Rightarrow>
          (if legacy_web3 w then (Inr (), s\<lparr>web3 := Some LegacyProvider\<rparr>, [])
           else (Inr (), s\<lparr>web3 := Some (HttpProvider ''http://localhost:7545'')\<rparr>, [])))"

text \<open>
  \<open>loadContact\<close>: the details are stored first; \<open>this.web3.eth\<close> then throws when the
  session is not connected.
\<close>

definition loadContact :: "session \<Rightarrow> string \<Rightarrow> abi_item list option \<Rightarrow> string \<Rightarrow> unit outcome" where
  "loadContact s contractAddress contractAbi cname =
     (let s1 = s\<lparr>contractDetails := (contractDetails s)(cname \<mapsto>
                  \<lparr> address = contractAddress, abi = contractAbi, contractName = cname \<rparr>)\<rparr>
      in case web3 s1 of
           None \<Rightarrow> (Inl TypeError, s1, [])
         | Some p \<Rightarrow>
             (Inr (), s1\<lparr>contracts := (contracts s1)(cname \<mapsto> Contract contractAbi contractAddress)\<rparr>, []))"

definition contract :: "session \<Rightarrow> string \<Rightarrow> contract found" where
  "contract s cname = js_get (contracts s) cname"

definition contractDetail :: "session \<Rightarrow> string \<Rightarrow> contract_detail found" where
  "contractDetail s cname = js_get (contractDetails s) cname"

definition getNetworkId :: "transport \<Rightarrow> session \<Rightarrow> nat outcome" where
  "getNetworkId nd s =
     (case web3 s of
        None \<Rightarrow> (Inl TypeError, s, [])
      | Some p \<Rightarrow> (Inr (net_id nd), s, [QueryNetworkId]))"

definition loadContractFromJson :: "transport \<Rightarrow> session \<Rightarrow> artifact \<Rightarrow> string \<Rightarrow> unit outcome" where
  "loadContractFromJson nd s contractJson cname =
     bind (getNetworkId nd s) (\<lambda>netId s1.
       case networks contractJson netId of
         None \<Rightarrow> (Inl (NetworkMismatch netId), s1, [])
       | Some n \<Rightarrow> loadContact s1 (network_address n) (artifact_abi contractJson) cname)"

text \<open>
  \<open>this.contracts[contractName].methods[method](args).call(options)\<close>: reading
  \<open>.methods\<close> of \<open>undefined\<close> throws, reading \<open>[method]\<close> of the \<open>.methods\<close> that an
  inherited property does not have throws, and so does the spread of a value that is
  not iterable; otherwise the library's answer is returned.
\<close>

definition invoke_call ::
  "transport \<Rightarrow> session \<Rightarrow> string \<Rightarrow> string \<Rightarrow> jsval list option \<Rightarrow> options \<Rightarrow> jsval outcome" where
  "invoke_call nd s cname method args opts =
     (case js_get (contracts s) cname of
        Missing \<Rightarrow> (Inl TypeError, s, [])
      | Inherited k \<Rightarrow> (Inl TypeError, s, [])
      | Own c \<Rightarrow>
          (case args of
             None \<Rightarrow> (Inl TypeError, s, [])
           | Some xs \<Rightarrow> (Inr (call_reply nd c method xs opts), s, [MethodCall c method xs opts])))"

definition call :: "transport \<Rightarrow> session \<Rightarrow> string \<Rightarrow> jsval \<Rightarrow> string \<Rightarrow> options \<Rightarrow> jsval outcome" where
  "call nd s method param cname opts =
     (if param = JNull then invoke_call nd s cname method (Some []) opts
      else if typeof param = ''object'' then invoke_call nd s cname method (spread param) opts
      else invoke_call nd s cname method (Some [param]) opts)"

text \<open>
  \<open>methodTypeIs\<close>; \<open>item.name == method\<close> compares a string or \<open>undefined\<close> with a
  string. An inherited property passes the first test and has no \<open>abi\<close>.
\<close>

definition opt_str :: "string option \<Rightarrow> jsval" where
  "opt_str x = (case x of None \<Rightarrow> JUndefined | Some v \<Rightarrow> JStr v)"

definition methodTypeIs :: "session \<Rightarrow> string \<Rightarrow> string \<Rightarrow> string \<Rightarrow> jsval" where
  "methodTypeIs s ty method cname =
     (case contractDetail s cname of
        Missing \<Rightarrow> JNull
      | Inherited k \<Rightarrow> JNull
      | Own d \<Rightarrow>
          (case abi d of
             None \<Rightarrow> JNull
           | Some items \<Rightarrow>
               (case filter (\<lambda>item. name item = Some method) items of
                  [] \<Rightarrow> JNull
                | f # rest \<Rightarrow>
                    js_and (opt_str (stateMutability f)) (JBool (stateMutability f = Some ty)))))"

definition methodIsViewOrPure :: "session \<Rightarrow> string \<Rightarrow> string \<Rightarrow> jsval" where
  "methodIsViewOrPure s method cname =
     js_or (methodTypeIs s ''view'' method cname) (methodTypeIs s ''pure'' method cname)"

definition methodIsPayable :: "session \<Rightarrow> string \<Rightarrow> string \<Rightarrow> jsval" where
  "methodIsPayable s method cname = methodTypeIs s ''payable'' method cname"

definition methodIsNonPayable :: "session \<Rightarrow> string \<Rightarrow> string \<Rightarrow> jsval" where
  "methodIsNonPayable s method cname = methodTypeIs s ''nonpayable'' method cname"

definition getBlock :: "transport \<Rightarrow> session \<Rightarrow> block_tag \<Rightarrow> block option outcome" where
  "getBlock nd s blockNumber =
     (case web3 s of
        None \<Rightarrow> (Inl TypeError, s, [])
      | Some p \<Rightarrow> (Inr (block_at nd blockNumber), s, [QueryBlock blockNumber]))"

definition getBlockNumber :: "transport \<Rightarrow> session \<Rightarrow> nat outcome" where
  "getBlockNumber nd s =
     (case web3 s of
        None \<Rightarrow> (Inl TypeError, s, [])
      | Some p \<Rightarrow> (Inr (block_number nd), s, [QueryBlockNumber]))"

definition getGasLimit :: "transport \<Rightarrow> session \<Rightarrow> bool \<Rightarrow> jsval outcome" where
  "getGasLimit nd s fromCache =
     (if truthy (gasLimit (defaultOptions s)) \<and> fromCache
      then (Inr (await_val (gasLimit (defaultOptions s))), s, [])
      else bind (getBlock nd s Latest) (\<lambda>blk s1.
        case blk of
          Some b \<Rightarrow>
            (let s2 = s1\<lparr>defaultOptions := (defaultOptions s1)\<lparr>gasLimit := JNum (block_gasLimit b)\<rparr>\<rparr>
             in (Inr (await_val (gasLimit (defaultOptions s2))), s2, []))
        | None \<Rightarrow> (Inr JNull, s1, [])))"

text \<open>
  \<open>getGasPrice\<close>: the library's promise is not awaited, so the value tested and stored
  is the promise itself; the caller receives what it resolves to.
\<close>

definition getGasPrice :: "transport \<Rightarrow> session \<Rightarrow> bool \<Rightarrow> jsval outcome" where
  "getGasPrice nd s fromCache =
     (if truthy (gasPrice (defaultOptions s)) \<and> fromCache
      then (Inr (await_val (gasPrice (defaultOptions s))), s, [])
      else (case web3 s of
              None \<Rightarrow> (Inl TypeError, s, [])
            | Some p \<Rightarrow>
                (let gp = JPromise (gas_price nd)
                 in if truthy gp
                    then (Inr (await_val gp),
                          s\<lparr>defaultOptions := (defaultOptions s)\<lparr>gasPrice := gp\<rparr>\<rparr>,
                          [QueryGasPrice])
                    else (Inr JNull, s, [QueryGasPrice]))))"

definition getTransactionCount :: "transport \<Rightarrow> session \<Rightarrow> string \<Rightarrow> jsval outcome" where
  "getTransactionCount nd s addr =
     (case web3 s of
        None \<Rightarrow> (Inl TypeError, s, [])
      | Some p \<Rightarrow> (Inr (JNum (int (transaction_count nd addr))), s, [QueryTransactionCount addr]))"

definition getTransactionData ::
  "transport \<Rightarrow> session \<Rightarrow> string \<Rightarrow> jsval \<Rightarrow> options \<Rightarrow> txdata outcome" where
  "getTransactionData nd s from_addr to_addr opts =
     bind (or_else (option_of opts ''nonce'') (\<lambda>s0. getTransactionCount nd s0 from_addr) s) (\<lambda>n s1.
     bind (or_else (option_of opts ''gasPrice'') (\<lambda>s0. getGasPrice nd s0 False) s1) (\<lambda>gp s2.
     bind (or_else (option_of opts ''gasLimit'') (\<lambda>s0. getGasLimit nd s0 False) s2) (\<lambda>gl s3.
       (Inr \<lparr> tx_from = from_addr, tx_to = to_addr, tx_nonce = n, tx_gasPrice = gp,
              tx_gasLimit = gl, tx_value = None, tx_data = None \<rparr>, s3, []))))"

text \<open>
  \<open>this.contractDetail(contractName).address\<close>: the address of a stored entry;
  \<open>undefined\<close> on an inherited property.
\<close>

definition address_of :: "contract_detail found \<Rightarrow> jsval" where
  "address_of f = (case f of Own d \<Rightarrow> JStr (address d) | Inherited k \<Rightarrow> JUndefined | Missing \<Rightarrow> JUndefined)"

text \<open>
  \<open>sendTxToSmartContract\<close>. The guard throws only when the read of the contract's
  details gives \<open>undefined\<close>. \<open>this.contract(contractName).methods[contractFnc]\<close>
  throws unless the read gives a stored contract. The operation returns the session
  itself. The listeners it attaches forward each later event of the transaction to
  \<open>emit\<close>.
\<close>

definition sendTxToSmartContract ::
  "transport \<Rightarrow> session \<Rightarrow> string \<Rightarrow> jsval \<Rightarrow> string \<Rightarrow> jsval list \<Rightarrow> options \<Rightarrow> string
     \<Rightarrow> unit outcome" where
  "sendTxToSmartContract nd s fromAddress fromPrivateKey contractFnc contractData opts cname =
     (if contractDetail s cname = Missing then (Inl ContractNotRegistered, s, [])
      else
        bind (getTransactionData nd s fromAddress (address_of (contractDetail s cname)) opts)
          (\<lambda>tx0 s1.
            let tx1 = (if truthy (option_of opts ''value'')
                       then tx0\<lparr>tx_value := Some (option_of opts ''value'')\<rparr> else tx0)
            in if truthy fromPrivateKey
               then (case contract s1 cname of
                       Missing \<Rightarrow> (Inl TypeError, s1, [])
                     | Inherited k \<Rightarrow> (Inl TypeError, s1, [])
                     | Own c \<Rightarrow>
                         (let data = encoded_abi nd c contractFnc contractData;
                              tx2 = (if data \<noteq> [] then tx1\<lparr>tx_data := Some data\<rparr> else tx1)
                          in (Inr (), s1,
                              [SignTransaction tx2 fromPrivateKey,
                               SendSignedTransaction (raw_transaction nd tx2 fromPrivateKey)])))
               else (case contract s1 cname of
                       Missing \<Rightarrow> (Inl TypeError, s1, [])
                     | Inherited k \<Rightarrow> (Inl TypeError, s1, [])
                     | Own c \<Rightarrow> (Inr (), s1, [MethodSend c contractFnc contractData tx1]))))"

text \<open>\<open>getUserAccount\<close>; \<open>accounts[0]\<close> of an empty array is \<open>undefined\<close>.\<close>

definition first_account :: "string list \<Rightarrow> jsval" where
  "first_account xs = (case xs of [] \<Rightarrow> JUndefined | a # rest \<Rightarrow> JStr a)"

definition getUserAccount :: "transport \<Rightarrow> session \<Rightarrow> jsval outcome" where
  "getUserAccount nd s =
     (if truthy (userAccount s) then (Inr (await_val (userAccount s)), s, [])
      else (case web3 s of
              None \<Rightarrow> (Inl TypeError, s, [])
            | Some p \<Rightarrow>
                (let s1 = s\<lparr>userAccount := first_account (accounts nd)\<rparr>
                 in (Inr (await_val (userAccount s1)), s1, [QueryAccounts]))))"

text \<open>
  \<open>on\<close>: the callback is stored only when the read under the event's name gives
  \<open>undefined\<close>; a registered callback and an inherited property are both truthy.
\<close>

definition on :: "session \<Rightarrow> string \<Rightarrow> (jsval \<Rightarrow> jsval) \<Rightarrow> session" where
  "on s eventName callback =
     (case js_get (callbacks s) eventName of
        Missing \<Rightarrow> s\<lparr>callbacks := (callbacks s)(eventName \<mapsto> callback)\<rparr>
      | Own cb \<Rightarrow> s
      | Inherited k \<Rightarrow> s)"

text \<open>
  \<open>emit\<close> calls whatever the read gives, when it is truthy: the registered callback,
  or the inherited function, with the data as its argument. \<open>Object.prototype\<close>
  (read under \<open>__proto__\<close>) is not a function and the call throws. What an inherited
  function returns is not the class's business and is left as \<open>BuiltinValue\<close>.
\<close>

datatype emitted = Value jsval | BuiltinValue string jsval

definition emit :: "session \<Rightarrow> string \<Rightarrow> jsval \<Rightarrow> (error + emitted) \<times> effect list" where
  "emit s eventName payload =
     (case js_get (callbacks s) eventName of
        Missing \<Rightarrow> (Inr (Value JUndefined), [])
      | Own cb \<Rightarrow> (Inr (Value (cb payload)), [Invoke cb payload])
      | Inherited k \<Rightarrow>
          (if k = ''__proto__'' then (Inl TypeError, [])
           else (Inr (BuiltinValue k payload), [InvokeInherited k payload])))"

section \<open>Example sessions\<close>

text \<open>
  A session connected to the local endpoint, with the contract \<open>Users\<close> registered
  at \<open>0xABC\<close> under a two-entry ABI, and a node as a local development chain answers.
\<close>

definition users_abi :: "abi_item list" where
  "users_abi =
     [\<lparr> name = Some ''getUser'', stateMutability = Some ''view'' \<rparr>,
      \<lparr> name = Some ''updateUser'', stateMutability = Some ''nonpayable'' \<rparr>]"

definition connected :: session where
  "connected = constructor\<lparr>web3 := Some (HttpProvider ''http://localhost:7545'')\<rparr>"

definition users_session :: session where
  "users_session = state_of (loadContact connected ''0xABC'' (Some users_abi) ''Users'')"

definition local_node :: transport where
  "local_node =
     \<lparr> net_id = 5777,
       block_at = (\<lambda>t. Some \<lparr> block_gasLimit = 6721975 \<rparr>),
       block_number = 12,
       gas_price = JNum 20000000000,
       transaction_count = (\<lambda>a. 3),
       accounts = [''0x8aD7''],
       call_reply = (\<lambda>c m xs opts. JArr xs),
       encoded_abi = (\<lambda>c m xs. ''0xa9059cbb''),
       raw_transaction = (\<lambda>tx k. ''0xf86c'') \<rparr>"

text \<open>The same node later: the gas price and the block gas limit have moved.\<close>

definition later_node :: transport where
  "later_node =
     local_node\<lparr> gas_price := JNum 25000000000,
                 block_at := (\<lambda>t. Some \<lparr> block_gasLimit = 8000000 \<rparr>) \<rparr>"

text \<open>The session after both gas defaults have been fetched once from \<open>local_node\<close>.\<close>

definition cached_session :: session where
  "cached_session =
     state_of (getGasLimit local_node (state_of (getGasPrice local_node users_session True)) True)"

text \<open>A compiled artifact deployed on network 5777 only.\<close>

definition users_artifact :: artifact where
  "users_artifact =
     \<lparr> networks = [5777 \<mapsto> \<lparr> network_address = ''0xABC'' \<rparr>],
       artifact_abi = Some users_abi \<rparr>"

section \<open>Auxiliary facts\<close>

lemma outcome_projections [simp]:
  "result_of (r, s, t) = r" "state_of (r, s, t) = s" "trace_of (r, s, t) = t"
  by (simp_all add: result_of_def state_of_def trace_of_def)

lemma bind_Inr [simp]: "bind (Inr x, s, t) k = (case k x s of (r, s', t') \<Rightarrow> (r, s', t @ t'))"
  by (simp add: bind_def)

lemma bind_Inl [simp]: "bind (Inl e, s, t) k = (Inl e, s, t)"
  by (simp add: bind_def)

lemma js_get_stored [simp]: "obj k = Some v \<Longrightarrow> js_get obj k = Own v"
  by (simp add: js_get_def)

lemma js_get_Missing: "(js_get obj k = Missing) = (obj k = None \<and> k \<notin> set object_prototype_names)"
  by (simp add: js_get_def split: option.split)

lemma js_get_constructor [simp]: "obj ''constructor'' = None \<Longrightarrow> js_get obj ''constructor'' = Inherited ''constructor''"
  by (simp add: js_get_def object_prototype_names_def)

lemmas example_defs =
  users_abi_def connected_def users_session_def local_node_def later_node_def
  cached_session_def users_artifact_def constructor_def

lemma users_detail:
  "contractDetails users_session ''Users''
     = Some \<lparr> address = ''0xABC'', abi = Some users_abi, contractName = ''Users'' \<rparr>"
  by (simp add: users_session_def connected_def constructor_def loadContact_def)

lemma users_contract: "contracts users_session ''Users'' = Some (Contract (Some users_abi) ''0xABC'')"
  by (simp add: users_session_def connected_def constructor_def loadContact_def)

lemma users_web3: "web3 users_session = Some (HttpProvider ''http://localhost:7545'')"
  by (simp add: users_session_def connected_def constructor_def loadContact_def)

lemma users_defaults: "defaultOptions users_session = \<lparr> gasLimit = JNull, gasPrice = JNull \<rparr>"
  by (simp add: users_session_def connected_def constructor_def loadContact_def)

lemma cached_defaults:
  "defaultOptions cached_session
     = \<lparr> gasLimit = JNum 6721975, gasPrice = JPromise (JNum 20000000000) \<rparr>"
  by (simp add: cached_session_def users_session_def connected_def constructor_def
        loadContact_def local_node_def getGasPrice_def getGasLimit_def getBlock_def Let_def)

lemma cached_web3: "web3 cached_session = Some (HttpProvider ''http://localhost:7545'')"
  by (simp add: cached_session_def users_session_def connected_def constructor_def
        loadContact_def local_node_def getGasPrice_def getGasLimit_def getBlock_def Let_def)

section \<open>Method introspection\<close>

text \<open>
  Claim C1, as the code has it. \<open>methodTypeIs\<close> returns \<open>null\<close> when the contract is not
  registered, when its ABI is absent, and also when no ABI entry is named as the queried
  method (the code returns \<open>null\<close> there, not \<open>false\<close>). When an entry matches, the
  first one decides: if it declares a non-empty mutability \<open>k\<close>, the result is the
  boolean \<open>k = ty\<close>.
\<close>

theorem methodTypeIs_result:
  "(contractDetails s cn = None \<longrightarrow> methodTypeIs s ty m cn = JNull)
   \<and> (contractDetails s cn = Some d \<and> abi d = None \<longrightarrow> methodTypeIs s ty m cn = JNull)
   \<and> (contractDetails s cn = Some d \<and> abi d = Some items
        \<and> Some m \<notin> set (map name items) \<longrightarrow> methodTypeIs s ty m cn = JNull)
   \<and> (contractDetails s cn = Some d \<and> abi d = Some (pre @ f # post)
        \<and> Some m \<notin> set (map name pre) \<and> name f = Some m
        \<and> stateMutability f = Some k \<and> k \<noteq> [] \<longrightarrow>
        methodTypeIs s ty m cn = JBool (k = ty))"
proof -
  have none: "filter (\<lambda>item. name item = Some m) xs = []" if "Some m \<notin> set (map name xs)" for xs
    using that by (induction xs) auto
  show ?thesis
    by (auto simp add: methodTypeIs_def contractDetail_def js_and_def opt_str_def none js_get_def)
qed

text \<open>
  The four cases on the example sessions: no contract, a contract registered without an
  ABI, a method the ABI does not have, and the \<open>view\<close> method \<open>getUser\<close>, which is
  read-only and not payable.
\<close>

theorem methodTypeIs_result_witness:
  "contractDetails connected ''Users'' = None
   \<and> methodTypeIs connected ''view'' ''getUser'' ''Users'' = JNull
   \<and> methodTypeIs (state_of (loadContact connected ''0xABC'' None ''Users'')) ''view'' ''getUser'' ''Users''
       = JNull
   \<and> Some ''getUserById'' \<notin> set (map name users_abi)
   \<and> methodTypeIs users_session ''view'' ''getUserById'' ''Users'' = JNull
   \<and> methodTypeIs users_session ''view'' ''getUser'' ''Users'' = JBool True
   \<and> methodTypeIs users_session ''payable'' ''getUser'' ''Users'' = JBool False"
  using
    methodTypeIs_result [where s = connected and cn = "''Users''" and ty = "''view''"
      and m = "''getUser''"]
    methodTypeIs_result [where s = "state_of (loadContact connected ''0xABC'' None ''Users'')"
      and cn = "''Users''" and ty = "''view''" and m = "''getUser''"
      and d = "\<lparr> address = ''0xABC'', abi = None, contractName = ''Users'' \<rparr>"]
    methodTypeIs_result [where s = users_session and cn = "''Users''" and ty = "''view''"
      and m = "''getUserById''" and items = users_abi
      and d = "\<lparr> address = ''0xABC'', abi = Some users_abi, contractName = ''Users'' \<rparr>"]
    methodTypeIs_result [where s = users_session and cn = "''Users''" and ty = "''view''"
      and m = "''getUser''" and k = "''view''" and pre = "[]"
      and f = "\<lparr> name = Some ''getUser'', stateMutability = Some ''view'' \<rparr>"
      and post = "[\<lparr> name = Some ''updateUser'', stateMutability = Some ''nonpayable'' \<rparr>]"
      and d = "\<lparr> address = ''0xABC'', abi = Some users_abi, contractName = ''Users'' \<rparr>"]
    methodTypeIs_result [where s = users_session and cn = "''Users''" and ty = "''payable''"
      and m = "''getUser''" and k = "''view''" and pre = "[]"
      and f = "\<lparr> name = Some ''getUser'', stateMutability = Some ''view'' \<rparr>"
      and post = "[\<lparr> name = Some ''updateUser'', stateMutability = Some ''nonpayable'' \<rparr>]"
      and d = "\<lparr> address = ''0xABC'', abi = Some users_abi, contractName = ''Users'' \<rparr>"]
    users_detail
  by (simp add: connected_def constructor_def loadContact_def users_abi_def)

text \<open>
  Claim C1 as stated asks for \<open>false\<close> when no entry has the queried name. The ABI of
  \<open>Users\<close> has no entry \<open>getUserById\<close>, and the result is \<open>null\<close>.
\<close>

theorem methodTypeIs_no_match_counterexample:
  "Some ''getUserById'' \<notin> set (map name users_abi)
   \<and> methodTypeIs users_session ''view'' ''getUserById'' ''Users'' = JNull
   \<and> methodTypeIs users_session ''view'' ''getUserById'' ''Users'' \<noteq> JBool False"
  by (simp add: methodTypeIs_def contractDetail_def users_detail users_abi_def)

section \<open>Transaction fields\<close>

text \<open>
  Claim C2, as the code has it. \<open>getTransactionData\<close> never reads the cached
  defaults: its result and its requests are the same whatever the cache holds. On a
  connected session each of the nonce, the gas price and the gas limit is decided on its
  own: a value that the options supply is used and no request is made for it; a value
  that the options do not supply is queried afresh (\<open>getGasPrice(false)\<close>,
  \<open>getGasLimit(false)\<close>) and the queried value is used. The requests are made in the
  order nonce, gas price, gas limit. With all three supplied nothing is requested and
  the session is unchanged, connected or not.
\<close>

theorem getTransactionData_ignores_cache:
  "result_of (getTransactionData nd (s\<lparr>defaultOptions := d\<rparr>) f t opts)
     = result_of (getTransactionData nd s f t opts)
   \<and> trace_of (getTransactionData nd (s\<lparr>defaultOptions := d\<rparr>) f t opts)
     = trace_of (getTransactionData nd s f t opts)
   \<and> (web3 s = Some p \<longrightarrow>
        result_of (getTransactionData nd s f t opts)
          = Inr \<lparr> tx_from = f, tx_to = t,
                  tx_nonce = (if truthy (option_of opts ''nonce'') then option_of opts ''nonce''
                              else JNum (int (transaction_count nd f))),
                  tx_gasPrice = (if truthy (option_of opts ''gasPrice'')
                                 then option_of opts ''gasPrice'' else gas_price nd),
                  tx_gasLimit = (if truthy (option_of opts ''gasLimit'')
                                 then option_of opts ''gasLimit''
                                 else (case block_at nd Latest of
                                         None \<Rightarrow> JNull | Some b \<Rightarrow> JNum (block_gasLimit b))),
                  tx_value = None, tx_data = None \<rparr>
        \<and> trace_of (getTransactionData nd s f t opts)
          = (if truthy (option_of opts ''nonce'') then [] else [QueryTransactionCount f])
            @ (if truthy (option_of opts ''gasPrice'') then [] else [QueryGasPrice])
            @ (if truthy (option_of opts ''gasLimit'') then [] else [QueryBlock Latest]))
   \<and> (web3 s = Some p \<and> \<not> truthy (option_of opts ''gasPrice'')
        \<and> \<not> truthy (option_of opts ''gasLimit'') \<longrightarrow>
        QueryGasPrice \<in> set (trace_of (getTransactionData nd s f t opts))
        \<and> QueryBlock Latest \<in> set (trace_of (getTransactionData nd s f t opts))
        \<and> map_sum id tx_gasPrice (result_of (getTransactionData nd s f t opts))
            = Inr (gas_price nd)
        \<and> map_sum id tx_gasLimit (result_of (getTransactionData nd s f t opts))
            = Inr (case block_at nd Latest of None \<Rightarrow> JNull | Some b \<Rightarrow> JNum (block_gasLimit b)))
   \<and> (truthy (option_of opts ''nonce'') \<and> truthy (option_of opts ''gasPrice'')
        \<and> truthy (option_of opts ''gasLimit'') \<longrightarrow>
        getTransactionData nd s f t opts
          = (Inr \<lparr> tx_from = f, tx_to = t, tx_nonce = option_of opts ''nonce'',
                   tx_gasPrice = option_of opts ''gasPrice'',
                   tx_gasLimit = option_of opts ''gasLimit'',
                   tx_value = None, tx_data = None \<rparr>, s, []))"
  by (auto simp add: getTransactionData_def or_else_def getTransactionCount_def getGasPrice_def
       getGasLimit_def getBlock_def Let_def split: option.split)

text \<open>
  On the session whose two defaults are cached: emptying the cache changes no request;
  with empty options all three queries are made; with only a gas price supplied it is
  used, and the nonce and the gas limit are queried; with all three supplied nothing is
  queried.
\<close>

theorem getTransactionData_ignores_cache_witness:
  "trace_of (getTransactionData later_node (cached_session\<lparr>defaultOptions := defaultOptions connected\<rparr>)
       ''0x8aD7'' (JStr ''0xABC'') [])
     = trace_of (getTransactionData later_node cached_session ''0x8aD7'' (JStr ''0xABC'') [])
   \<and> trace_of (getTransactionData later_node cached_session ''0x8aD7'' (JStr ''0xABC'') [])
     = [QueryTransactionCount ''0x8aD7'', QueryGasPrice, QueryBlock Latest]
   \<and> result_of (getTransactionData later_node cached_session ''0x8aD7'' (JStr ''0xABC'')
        [(''gasPrice'', JNum 1)])
     = Inr \<lparr> tx_from = ''0x8aD7'', tx_to = JStr ''0xABC'', tx_nonce = JNum 3, tx_gasPrice = JNum 1,
             tx_gasLimit = JNum 8000000, tx_value = None, tx_data = None \<rparr>
   \<and> trace_of (getTransactionData later_node cached_session ''0x8aD7'' (JStr ''0xABC'')
        [(''gasPrice'', JNum 1)])
     = [QueryTransactionCount ''0x8aD7'', QueryBlock Latest]
   \<and> getTransactionData later_node cached_session ''0x8aD7'' (JStr ''0xABC'')
         [(''nonce'', JNum 4), (''gasPrice'', JNum 1), (''gasLimit'', JNum 21000)]
       = (Inr \<lparr> tx_from = ''0x8aD7'', tx_to = JStr ''0xABC'', tx_nonce = JNum 4, tx_gasPrice = JNum 1,
                tx_gasLimit = JNum 21000, tx_value = None, tx_data = None \<rparr>, cached_session, [])"
  using
    getTransactionData_ignores_cache [where nd = later_node and s = cached_session
      and d = "defaultOptions connected" and f = "''0x8aD7''" and t = "JStr ''0xABC''" and opts = "[]"
      and p = "HttpProvider ''http://localhost:7545''"]
    getTransactionData_ignores_cache [where nd = later_node and s = cached_session
      and f = "''0x8aD7''" and t = "JStr ''0xABC''" and opts = "[(''gasPrice'', JNum 1)]"
      and p = "HttpProvider ''http://localhost:7545''"]
    getTransactionData_ignores_cache [where nd = later_node and s = cached_session
      and f = "''0x8aD7''" and t = "JStr ''0xABC''"
      and opts = "[(''nonce'', JNum 4), (''gasPrice'', JNum 1), (''gasLimit'', JNum 21000)]"]
    cached_web3
  by (simp add: option_of_def later_node_def local_node_def)

text \<open>
  Claim C2 as stated asks for the cached gas price and gas limit and for no fresh
  query. With both defaults cached from \<open>local_node\<close> and empty options, the
  transaction carries the values of \<open>later_node\<close>, and the gas price and the latest
  block are queried.
\<close>

theorem getTransactionData_cache_counterexample:
  "gasLimit (defaultOptions cached_session) = JNum 6721975
   \<and> gasPrice (defaultOptions cached_session) = JPromise (JNum 20000000000)
   \<and> result_of (getTransactionData later_node cached_session ''0x8aD7'' (JStr ''0xABC'') [])
       = Inr \<lparr> tx_from = ''0x8aD7'', tx_to = JStr ''0xABC'', tx_nonce = JNum 3,
               tx_gasPrice = JNum 25000000000, tx_gasLimit = JNum 8000000,
               tx_value = None, tx_data = None \<rparr>
   \<and> trace_of (getTransactionData later_node cached_session ''0x8aD7'' (JStr ''0xABC'') [])
       = [QueryTransactionCount ''0x8aD7'', QueryGasPrice, QueryBlock Latest]"
  by (simp add: cached_defaults cached_web3 getTransactionData_def or_else_def option_of_def
        getTransactionCount_def getGasPrice_def getGasLimit_def getBlock_def Let_def
        later_node_def local_node_def)

section \<open>Gas price\<close>

text \<open>
  Claim C3 at a fresh connected session. The live query is made and the caller receives
  the price, but the cache holds the promise of the library, not the number it resolves
  to. When the query resolves to \<open>undefined\<close>, the caller receives \<open>undefined\<close>,
  not \<open>null\<close>, and the promise is cached all the same.
\<close>

theorem getGasPrice_caches_promise:
  "getGasPrice local_node connected False
     = (Inr (JNum 20000000000),
        connected\<lparr>defaultOptions := \<lparr> gasLimit = JNull, gasPrice = JPromise (JNum 20000000000) \<rparr>\<rparr>,
        [QueryGasPrice])
   \<and> gasPrice (defaultOptions (state_of (getGasPrice local_node connected False)))
       \<noteq> JNum 20000000000
   \<and> result_of (getGasPrice (local_node\<lparr>gas_price := JUndefined\<rparr>) connected False)
       = Inr JUndefined
   \<and> gasPrice (defaultOptions
         (state_of (getGasPrice (local_node\<lparr>gas_price := JUndefined\<rparr>) connected False)))
       = JPromise JUndefined"
  by (simp add: getGasPrice_def connected_def constructor_def local_node_def Let_def)

section \<open>Event callbacks\<close>

text \<open>
  Claim C4 at the event name \<open>constructor\<close>, on a new session. Nothing is registered
  under it, yet \<open>emit\<close> is not a no-op: it calls the function that the callback table
  inherits under that name. \<open>on\<close> stores nothing, for the first callback as for the
  second, so the table never holds \<open>cb1\<close>, and \<open>emit\<close> afterwards still calls the
  inherited function and never \<open>cb1\<close>.
\<close>

theorem on_emit_inherited_name:
  "callbacks constructor ''constructor'' = None
   \<and> emit constructor ''constructor'' (JStr ''reverted'')
       = (Inr (BuiltinValue ''constructor'' (JStr ''reverted'')),
          [InvokeInherited ''constructor'' (JStr ''reverted'')])
   \<and> on constructor ''constructor'' (\<lambda>d. JArr [JNum 1, d]) = constructor
   \<and> callbacks (on (on constructor ''constructor'' (\<lambda>d. JArr [JNum 1, d])) ''constructor''
         (\<lambda>d. JArr [JNum 2, d])) ''constructor'' = None
   \<and> emit (on (on constructor ''constructor'' (\<lambda>d. JArr [JNum 1, d])) ''constructor''
         (\<lambda>d. JArr [JNum 2, d])) ''constructor'' (JStr ''reverted'')
       = (Inr (BuiltinValue ''constructor'' (JStr ''reverted'')),
          [InvokeInherited ''constructor'' (JStr ''reverted'')])"
  by (simp add: on_def emit_def constructor_def)

text \<open>
  For an event name that no object inherits, the first registration wins. When nothing
  is registered under \<open>e\<close>, \<open>emit\<close> does nothing; after \<open>on(e, cb1)\<close> and then
  \<open>on(e, cb2)\<close>, the second registration has changed nothing, the callback under
  \<open>e\<close> is \<open>cb1\<close>, and \<open>emit(e, payload)\<close> runs \<open>cb1\<close> on the payload, once, and
  nothing else.
\<close>

lemma on_first_registration_wins:
  assumes "callbacks s e = None" and "e \<notin> set object_prototype_names"
  shows "emit s e payload = (Inr (Value JUndefined), [])
       \<and> callbacks (on s e cb1) e = Some cb1
       \<and> on (on s e cb1) e cb2 = on s e cb1
       \<and> callbacks (on (on s e cb1) e cb2) e = Some cb1
       \<and> emit (on (on s e cb1) e cb2) e payload = (Inr (Value (cb1 payload)), [Invoke cb1 payload])"
  using assms by (simp add: on_def emit_def js_get_def)

text \<open>
  Two handlers registered for \<open>error\<close> on a new session: only the first one runs.
\<close>

lemma on_first_registration_wins_error:
  "emit constructor ''error'' (JStr ''reverted'') = (Inr (Value JUndefined), [])
   \<and> emit (on (on constructor ''error'' (\<lambda>d. JArr [JNum 1, d])) ''error'' (\<lambda>d. JArr [JNum 2, d]))
         ''error'' (JStr ''reverted'')
       = (Inr (Value (JArr [JNum 1, JStr ''reverted''])),
          [Invoke (\<lambda>d. JArr [JNum 1, d]) (JStr ''reverted'')])"
  by (simp add: on_def emit_def js_get_def constructor_def object_prototype_names_def)

section \<open>Read-only invocation\<close>

text \<open>
  Claim C5, as the code has it. On a registered contract, \<open>call\<close> invokes the method
  with no argument for \<open>null\<close>, with the elements of an array as positional arguments,
  and with the value itself as the single argument for every value whose \<open>typeof\<close> is
  not \<open>'object'\<close>. A keyed object is spread like an array: the spread throws and
  nothing is invoked.
\<close>

theorem call_dispatch:
  assumes "contracts s cn = Some c"
  shows "call nd s m JNull cn opts = (Inr (call_reply nd c m [] opts), s, [MethodCall c m [] opts])
       \<and> call nd s m (JArr xs) cn opts
           = (Inr (call_reply nd c m xs opts), s, [MethodCall c m xs opts])
       \<and> (typeof v \<noteq> ''object'' \<longrightarrow>
            call nd s m v cn opts = (Inr (call_reply nd c m [v] opts), s, [MethodCall c m [v] opts]))
       \<and> call nd s m (JObj kvs) cn opts = (Inl TypeError, s, [])"
  using assms by (auto simp add: call_def invoke_call_def)

text \<open>
  The three shapes on the contract \<open>Users\<close>; the example node answers with the
  arguments it received.
\<close>

theorem call_dispatch_witness:
  "contracts users_session ''Users'' = Some (Contract (Some users_abi) ''0xABC'')
   \<and> result_of (call local_node users_session ''getUser'' JNull ''Users'' []) = Inr (JArr [])
   \<and> result_of (call local_node users_session ''getUser'' (JArr [JStr ''a'', JStr ''b'']) ''Users'' [])
       = Inr (JArr [JStr ''a'', JStr ''b''])
   \<and> result_of (call local_node users_session ''getUser'' (JStr ''x'') ''Users'' [])
       = Inr (JArr [JStr ''x''])"
  using users_contract
    call_dispatch [OF users_contract, where nd = local_node and m = "''getUser''" and opts = "[]"
      and xs = "[JStr ''a'', JStr ''b'']" and v = "JStr ''x''"]
  by (simp add: local_node_def)

text \<open>
  Claim C5 as stated passes any value that is neither \<open>null\<close> nor a sequence as a
  single argument. The keyed object \<open>{id: 42}\<close> is not passed: the call throws a
  TypeError and makes no invocation.
\<close>

theorem call_keyed_object_counterexample:
  "call local_node users_session ''getUser'' (JObj [(''id'', JNum 42)]) ''Users'' []
     = (Inl TypeError, users_session, [])
   \<and> call local_node users_session ''getUser'' (JObj [(''id'', JNum 42)]) ''Users'' []
     \<noteq> (Inr (call_reply local_node (Contract (Some users_abi) ''0xABC'') ''getUser''
               [JObj [(''id'', JNum 42)]] []),
         users_session,
         [MethodCall (Contract (Some users_abi) ''0xABC'') ''getUser'' [JObj [(''id'', JNum 42)]] []])"
  by (simp add: call_def invoke_call_def users_contract)

section \<open>Gas limit\<close>

text \<open>
  Claim C6. With a cached gas limit (a number the code's test accepts, that is, not
  zero), \<open>getGasLimit(true)\<close> returns it, makes no request and leaves the session as it
  is. On a connected session \<open>getGasLimit(false)\<close> queries the latest block whatever the
  cache holds: it stores the block's gas limit in the cache and returns it, or returns
  \<open>null\<close> when the library has no block to give.
\<close>

theorem getGasLimit_caching:
  "(gasLimit (defaultOptions s) = JNum n \<and> n \<noteq> 0 \<longrightarrow>
      getGasLimit nd s True = (Inr (JNum n), s, []))
   \<and> (web3 s = Some p \<and> block_at nd Latest = Some b \<longrightarrow>
      getGasLimit nd s False =
        (Inr (JNum (block_gasLimit b)),
         s\<lparr>defaultOptions := (defaultOptions s)\<lparr>gasLimit := JNum (block_gasLimit b)\<rparr>\<rparr>,
         [QueryBlock Latest]))
   \<and> (web3 s = Some p \<and> block_at nd Latest = None \<longrightarrow>
      getGasLimit nd s False = (Inr JNull, s, [QueryBlock Latest]))"
  by (simp add: getGasLimit_def getBlock_def Let_def)

text \<open>
  On the session with both defaults cached, against a node whose block gas limit has
  moved, and against a node that has no block.
\<close>

theorem getGasLimit_caching_witness:
  "gasLimit (defaultOptions cached_session) = JNum 6721975
   \<and> getGasLimit later_node cached_session True = (Inr (JNum 6721975), cached_session, [])
   \<and> getGasLimit later_node cached_session False
       = (Inr (JNum 8000000),
          cached_session\<lparr>defaultOptions :=
            \<lparr> gasLimit = JNum 8000000, gasPrice = JPromise (JNum 20000000000) \<rparr>\<rparr>,
          [QueryBlock Latest])
   \<and> getGasLimit (later_node\<lparr>block_at := (\<lambda>t. None)\<rparr>) cached_session False
       = (Inr JNull, cached_session, [QueryBlock Latest])"
  using
    getGasLimit_caching [where s = cached_session and n = 6721975 and nd = later_node
      and p = "HttpProvider ''http://localhost:7545''" and b = "\<lparr> block_gasLimit = 8000000 \<rparr>"]
    getGasLimit_caching [where s = cached_session and n = 6721975
      and nd = "later_node\<lparr>block_at := (\<lambda>t. None)\<rparr>"
      and p = "HttpProvider ''http://localhost:7545''"]
    cached_defaults cached_web3
  by (simp add: later_node_def)

section \<open>Transaction submission\<close>

text \<open>
  Claim C7 at the contract name \<open>constructor\<close>, which was never registered on the
  example session. The read of the contract's details gives the inherited function, the
  guard lets it pass, and no \<open>'Contract address not found!'\<close> is thrown: the nonce, the
  gas price and the latest block are queried, the gas defaults of the session are
  written, and the submission ends in a TypeError.
\<close>

theorem sendTx_inherited_name:
  "contractDetails users_session ''constructor'' = None
   \<and> contracts users_session ''constructor'' = None
   \<and> sendTxToSmartContract local_node users_session ''0x8aD7'' JNull ''updateUser'' [JStr ''John'']
         [] ''constructor''
       = (Inl TypeError,
          users_session\<lparr>defaultOptions :=
            \<lparr> gasLimit = JNum 6721975, gasPrice = JPromise (JNum 20000000000) \<rparr>\<rparr>,
          [QueryTransactionCount ''0x8aD7'', QueryGasPrice, QueryBlock Latest])"
proof -
  have d: "contractDetails users_session ''constructor'' = None"
    and c: "contracts users_session ''constructor'' = None"
    by (simp_all add: users_session_def connected_def constructor_def loadContact_def)
  show ?thesis
    by (simp add: d c sendTxToSmartContract_def contractDetail_def contract_def address_of_def
          getTransactionData_def or_else_def option_of_def getTransactionCount_def
          getGasPrice_def getGasLimit_def getBlock_def Let_def users_web3 users_defaults
          local_node_def)
qed

text \<open>
  For a contract name that has no registration and that no object inherits,
  \<open>sendTxToSmartContract\<close> throws \<open>'Contract address not found!'\<close>, makes no request
  and leaves the session unchanged.
\<close>

lemma sendTx_unregistered:
  assumes "contractDetails s cname = None" and "cname \<notin> set object_prototype_names"
  shows "sendTxToSmartContract nd s fromAddress key fnc args opts cname
           = (Inl ContractNotRegistered, s, [])"
  using assms by (simp add: sendTxToSmartContract_def contractDetail_def js_get_def)

section \<open>Registration\<close>

text \<open>
  Claim C8. On a connected session \<open>loadContractFromJson\<close> fails exactly when the
  artifact has no entry for the network identifier of the node; it then throws the
  network error naming that identifier and leaves the session unchanged. Otherwise it
  does what \<open>loadContact\<close> does for the address of that entry and the ABI of the
  artifact: the session it leaves differs from the one it found only under the name
  \<open>N\<close>, where the details hold that address and that ABI and the contract is bound
  to them, and the accessors for \<open>N\<close> return them.
\<close>

theorem loadContractFromJson_network_check:
  assumes "web3 s = Some p"
  shows "isl (result_of (loadContractFromJson nd s j N)) = (networks j (net_id nd) = None)
       \<and> (networks j (net_id nd) = None \<longrightarrow>
            loadContractFromJson nd s j N
              = (Inl (NetworkMismatch (net_id nd)), s, [QueryNetworkId]))
       \<and> (networks j (net_id nd) = Some n \<longrightarrow>
            loadContractFromJson nd s j N
              = (Inr (), state_of (loadContact s (network_address n) (artifact_abi j) N),
                 [QueryNetworkId])
            \<and> state_of (loadContractFromJson nd s j N)
              = s\<lparr> contractDetails := (contractDetails s)(N \<mapsto>
                     \<lparr> address = network_address n, abi = artifact_abi j, contractName = N \<rparr>),
                   contracts := (contracts s)(N \<mapsto>
                     Contract (artifact_abi j) (network_address n)) \<rparr>
            \<and> contractDetail (state_of (loadContractFromJson nd s j N)) N
              = Own \<lparr> address = network_address n, abi = artifact_abi j, contractName = N \<rparr>
            \<and> contract (state_of (loadContractFromJson nd s j N)) N
              = Own (Contract (artifact_abi j) (network_address n)))"
  using assms
  by (auto simp add: loadContractFromJson_def getNetworkId_def loadContact_def Let_def
        contractDetail_def contract_def split: option.split)

text \<open>
  The artifact deployed on network 5777 only, loaded from network 5777, where
  \<open>Users\<close> is registered at \<open>0xABC\<close> with the artifact's ABI, and from network 1.
\<close>

theorem loadContractFromJson_network_check_witness:
  "web3 connected = Some (HttpProvider ''http://localhost:7545'')
   \<and> networks users_artifact (net_id local_node) = Some \<lparr> network_address = ''0xABC'' \<rparr>
   \<and> result_of (loadContractFromJson local_node connected users_artifact ''Users'') = Inr ()
   \<and> trace_of (loadContractFromJson local_node connected users_artifact ''Users'') = [QueryNetworkId]
   \<and> contractDetail (state_of (loadContractFromJson local_node connected users_artifact ''Users''))
         ''Users''
       = Own \<lparr> address = ''0xABC'', abi = Some users_abi, contractName = ''Users'' \<rparr>
   \<and> contract (state_of (loadContractFromJson local_node connected users_artifact ''Users''))
         ''Users''
       = Own (Contract (Some users_abi) ''0xABC'')
   \<and> networks users_artifact (net_id (local_node\<lparr>net_id := 1\<rparr>)) = None
   \<and> loadContractFromJson (local_node\<lparr>net_id := 1\<rparr>) connected users_artifact ''Users''
       = (Inl (NetworkMismatch 1), connected, [QueryNetworkId])"
proof -
  have h: "web3 connected = Some (HttpProvider ''http://localhost:7545'')"
    by (simp add: connected_def)
  have n1: "networks users_artifact (net_id local_node) = Some \<lparr> network_address = ''0xABC'' \<rparr>"
    by (simp add: users_artifact_def local_node_def)
  have n2: "networks users_artifact (net_id (local_node\<lparr>net_id := 1\<rparr>)) = None"
    by (simp add: users_artifact_def)
  have abi: "artifact_abi users_artifact = Some users_abi"
    by (simp add: users_artifact_def)
  note ok = loadContractFromJson_network_check [OF h, where nd = local_node and j = users_artifact
        and n = "\<lparr> network_address = ''0xABC'' \<rparr>" and N = "''Users''"]
  note ko = loadContractFromJson_network_check [OF h, where nd = "local_node\<lparr>net_id := 1\<rparr>"
        and j = users_artifact and N = "''Users''"]
  have run: "loadContractFromJson local_node connected users_artifact ''Users''
      = (Inr (), state_of (loadContact connected (network_address \<lparr> network_address = ''0xABC'' \<rparr>)
                   (artifact_abi users_artifact) ''Users''), [QueryNetworkId])"
    using ok n1 by blast
  have r: "result_of (loadContractFromJson local_node connected users_artifact ''Users'') = Inr ()"
    by (simp only: run outcome_projections)
  have t: "trace_of (loadContractFromJson local_node connected users_artifact ''Users'')
      = [QueryNetworkId]"
    by (simp only: run outcome_projections)
  have "contractDetail (state_of (loadContractFromJson local_node connected users_artifact ''Users''))
         ''Users''
       = Own \<lparr> address = network_address \<lparr> network_address = ''0xABC'' \<rparr>,
               abi = artifact_abi users_artifact, contractName = ''Users'' \<rparr>"
    using ok n1 by blast
  then have d: "contractDetail
         (state_of (loadContractFromJson local_node connected users_artifact ''Users'')) ''Users''
       = Own \<lparr> address = ''0xABC'', abi = Some users_abi, contractName = ''Users'' \<rparr>"
    by (simp add: abi)
  have "contract (state_of (loadContractFromJson local_node connected users_artifact ''Users''))
         ''Users''
       = Own (Contract (artifact_abi users_artifact)
               (network_address \<lparr> network_address = ''0xABC'' \<rparr>))"
    using ok n1 by blast
  then have c: "contract
         (state_of (loadContractFromJson local_node connected users_artifact ''Users'')) ''Users''
       = Own (Contract (Some users_abi) ''0xABC'')"
    by (simp add: abi)
  have "loadContractFromJson (local_node\<lparr>net_id := 1\<rparr>) connected users_artifact ''Users''
       = (Inl (NetworkMismatch (net_id (local_node\<lparr>net_id := 1\<rparr>))), connected, [QueryNetworkId])"
    using ko n2 by blast
  then have f: "loadContractFromJson (local_node\<lparr>net_id := 1\<rparr>) connected users_artifact ''Users''
       = (Inl (NetworkMismatch 1), connected, [QueryNetworkId])"
    by simp
  show ?thesis
    using h n1 r t d c n2 f by blast
qed

text \<open>
  Claim C9. On a connected session, after \<open>loadContact(A, B, N)\<close> the accessors give
  address \<open>A\<close> and ABI \<open>B\<close> for \<open>N\<close>, and a contract bound to them. Registering
  \<open>(A', B')\<close> under the same name afterwards gives the very outcome of registering
  \<open>(A', B')\<close> alone: nothing of the first registration is left.
\<close>

theorem loadContact_accessors:
  assumes "web3 s = Some p"
  shows "result_of (loadContact s A B N) = Inr ()
       \<and> contractDetail (state_of (loadContact s A B N)) N
           = Own \<lparr> address = A, abi = B, contractName = N \<rparr>
       \<and> contract (state_of (loadContact s A B N)) N = Own (Contract B A)
       \<and> loadContact (state_of (loadContact s A B N)) A' B' N = loadContact s A' B' N
       \<and> contractDetail (state_of (loadContact (state_of (loadContact s A B N)) A' B' N)) N
           = Own \<lparr> address = A', abi = B', contractName = N \<rparr>
       \<and> contract (state_of (loadContact (state_of (loadContact s A B N)) A' B' N)) N
           = Own (Contract B' A')"
  using assms by (simp add: loadContact_def contractDetail_def contract_def Let_def)

text \<open>
  \<open>Users\<close> registered at \<open>0xABC\<close>, then again at \<open>0xDEF\<close> with an empty ABI.
\<close>

theorem loadContact_accessors_witness:
  "web3 connected = Some (HttpProvider ''http://localhost:7545'')
   \<and> contractDetail users_session ''Users''
       = Own \<lparr> address = ''0xABC'', abi = Some users_abi, contractName = ''Users'' \<rparr>
   \<and> contract users_session ''Users'' = Own (Contract (Some users_abi) ''0xABC'')
   \<and> contractDetail (state_of (loadContact users_session ''0xDEF'' (Some []) ''Users'')) ''Users''
       = Own \<lparr> address = ''0xDEF'', abi = Some [], contractName = ''Users'' \<rparr>"
proof -
  have h: "web3 connected = Some (HttpProvider ''http://localhost:7545'')"
    by (simp add: connected_def)
  show ?thesis
    using h loadContact_accessors [OF h, where A = "''0xABC''" and B = "Some users_abi"
      and N = "''Users''" and A' = "''0xDEF''" and B' = "Some []"]
    unfolding users_session_def by blast
qed

section \<open>User account\<close>

text \<open>
  Claim C10. On a connected session with no cached account: when the provider has no
  account, \<open>getUserAccount\<close> returns \<open>undefined\<close>, the cache still holds no
  account, and the next call asks the provider again; when the first account is a
  non-empty string, it is returned and cached. With a non-empty account cached, a
  call returns it, makes no request and leaves the session as it is, so every later
  call does the same.
\<close>

theorem getUserAccount_caching:
  "(web3 s = Some p \<and> \<not> truthy (userAccount s) \<and> accounts nd = [] \<longrightarrow>
      result_of (getUserAccount nd s) = Inr JUndefined
      \<and> \<not> truthy (userAccount (state_of (getUserAccount nd s)))
      \<and> trace_of (getUserAccount nd s) = [QueryAccounts]
      \<and> trace_of (getUserAccount nd' (state_of (getUserAccount nd s))) = [QueryAccounts])
   \<and> (web3 s = Some p \<and> \<not> truthy (userAccount s) \<and> accounts nd = a # rest \<and> a \<noteq> [] \<longrightarrow>
      result_of (getUserAccount nd s) = Inr (JStr a)
      \<and> userAccount (state_of (getUserAccount nd s)) = JStr a)
   \<and> (userAccount s = JStr a \<and> a \<noteq> [] \<longrightarrow>
      getUserAccount nd' s = (Inr (JStr a), s, []))"
  by (simp add: getUserAccount_def first_account_def Let_def)

text \<open>
  A provider with no account, then one with an account, then a cached account.
\<close>

theorem getUserAccount_caching_witness:
  "result_of (getUserAccount (local_node\<lparr>accounts := []\<rparr>) connected) = Inr JUndefined
   \<and> trace_of (getUserAccount local_node
         (state_of (getUserAccount (local_node\<lparr>accounts := []\<rparr>) connected))) = [QueryAccounts]
   \<and> userAccount (state_of (getUserAccount local_node connected)) = JStr ''0x8aD7''
   \<and> getUserAccount (local_node\<lparr>accounts := []\<rparr>) (connected\<lparr>userAccount := JStr ''0x8aD7''\<rparr>)
       = (Inr (JStr ''0x8aD7''), connected\<lparr>userAccount := JStr ''0x8aD7''\<rparr>, [])"
  using
    getUserAccount_caching [where s = connected and p = "HttpProvider ''http://localhost:7545''"
      and nd = "local_node\<lparr>accounts := []\<rparr>" and nd' = local_node]
    getUserAccount_caching [where s = connected and p = "HttpProvider ''http://localhost:7545''"
      and nd = local_node and a = "''0x8aD7''" and rest = "[]"]
    getUserAccount_caching [where s = "connected\<lparr>userAccount := JStr ''0x8aD7''\<rparr>"
      and nd' = "local_node\<lparr>accounts := []\<rparr>" and a = "''0x8aD7''"]
  by (simp add: connected_def constructor_def local_node_def)

end
